theory Spec2Isabelle
  imports
    Main
    "HOL-Library.Char_ord"
    "HOL-Library.List_Lexorder"
    "HOL-Library.AList"
    "HOL-Library.Multiset"
begin

section \<open>Python values, errors and strings\<close>

text \<open>
  The values that travel through \<^verbatim>\<open>perfkitbenchmarker/configs/spec.py\<close>: what a parsed YAML
  document holds (\<^verbatim>\<open>None\<close>, booleans, integers, strings, lists, dicts) and the spec objects
  the decoders build. A dict is the list of its items in insertion order; its keys are
  strings, as the keys of a dict expanded with \<^verbatim>\<open>**\<close> have to be. A spec object is the
  list of its instance attributes in the order \<^verbatim>\<open>setattr\<close> created them.

  Strings are compared as Python compares \<^verbatim>\<open>str\<close>: lexicographically, character by
  character, a proper prefix first (\<open>Char_ord\<close> and \<open>List_Lexorder\<close>).
\<close>

datatype pyval =
    PNone
  | PBool bool
  | PInt int
  | PStr string
  | PList "pyval list"
  | PDict "(string \<times> pyval) list"
  | PSpec "(string \<times> pyval) list"

text \<open>
  The exceptions of the module: \<^verbatim>\<open>errors.Config.InvalidValue\<close>,
  \<^verbatim>\<open>errors.Config.MissingOption\<close> and \<^verbatim>\<open>errors.Config.UnrecognizedOption\<close>, each with
  its message, and the \<^verbatim>\<open>TypeError\<close> of a call whose keyword arguments cannot be bound.
\<close>

datatype error =
    InvalidValue string
  | MissingOption string
  | UnrecognizedOption string
  | TypeError

type_synonym config = "(string \<times> pyval) list"

type_synonym spec_instance = "(string \<times> pyval) list"

text \<open>
  \<^verbatim>\<open>absl.flags.FlagValues\<close> is the list of its registered flags; like every Python
  container with \<^verbatim>\<open>__len__\<close> it is true exactly when it is not empty. The parameter
  \<^verbatim>\<open>flag_values\<close> is \<^verbatim>\<open>None\<close> or such an object.
\<close>

type_synonym flag_values = "(string \<times> pyval) list"

definition truthy_flags :: "flag_values option \<Rightarrow> bool" where
  "truthy_flags fv = (case fv of None \<Rightarrow> False | Some f \<Rightarrow> f \<noteq> [])"

text \<open>\<^verbatim>\<open>sep.join(xs)\<close>.\<close>

fun join :: "string \<Rightarrow> string list \<Rightarrow> string" where
  "join sep [] = []"
| "join sep [x] = x"
| "join sep (x # y # ys) = x @ sep @ join sep (y # ys)"

section \<open>The spec registry\<close>

text \<open>
  A class as \<^verbatim>\<open>BaseSpecMetaClass.__init__\<close> and \<^verbatim>\<open>GetSpecClass\<close> read it: its
  \<^verbatim>\<open>__name__\<close>, its \<^verbatim>\<open>SPEC_TYPE\<close> (\<^verbatim>\<open>None\<close> or a string), its \<^verbatim>\<open>SPEC_ATTRS\<close> and the
  attributes that \<^verbatim>\<open>hasattr\<close> and \<^verbatim>\<open>getattr\<close> resolve on it. The values of the
  registering attributes are of a type \<open>'a\<close> of hashable Python values (cloud names
  in this code base), since they become part of a dict key.
\<close>

record 'a py_class =
  cls_name :: string
  SPEC_TYPE :: "string option"
  SPEC_ATTRS :: "string list"
  cls_attrs :: "string \<rightharpoonup> 'a"

text \<open>
  A key of \<^verbatim>\<open>_SPEC_REGISTRY\<close> is the tuple of a name followed by (attribute, value)
  pairs; the registry is a dict from such keys to classes.
\<close>

type_synonym 'a registry_key = "string \<times> (string \<times> 'a) list"

type_synonym 'a registry = "'a registry_key \<rightharpoonup> 'a py_class"

text \<open>
  \<^verbatim>\<open>sorted\<close> on (name, value) pairs. Python orders tuples by their first components
  and looks at the second ones only between pairs with equal names; the names of
  keyword arguments differ from one another, and two pairs built from a repeated entry
  of \<^verbatim>\<open>SPEC_ATTRS\<close> are equal, so the stable sort on the name is what \<^verbatim>\<open>sorted\<close> computes.
\<close>

definition sorted_items :: "(string \<times> 'b) list \<Rightarrow> (string \<times> 'b) list" where
  "sorted_items kvs = sort_key fst kvs"

text \<open>
  \<^verbatim>\<open>def GetSpecClass(base_class, **kwargs)\<close>: the registered subclass, or
  \<^verbatim>\<open>base_class\<close> when the key is not in the registry.
\<close>

definition GetSpecClass :: "'a registry \<Rightarrow> 'a py_class \<Rightarrow> (string \<times> 'a) list \<Rightarrow> 'a py_class" where
  "GetSpecClass reg base_class kwargs =
     (let key = (cls_name base_class, sorted_items kwargs)
      in case reg key of Some cls \<Rightarrow> cls | None \<Rightarrow> base_class)"

text \<open>
  The truth value of \<^verbatim>\<open>cls.SPEC_TYPE\<close>: \<^verbatim>\<open>None\<close> and the empty string are false.
\<close>

definition truthy_SPEC_TYPE :: "'a py_class \<Rightarrow> bool" where
  "truthy_SPEC_TYPE cls = (case SPEC_TYPE cls of None \<Rightarrow> False | Some s \<Rightarrow> s \<noteq> [])"

definition hasattr :: "'a py_class \<Rightarrow> string \<Rightarrow> bool" where
  "hasattr cls attr = (cls_attrs cls attr \<noteq> None)"

text \<open>
  The guard of line 60: every attribute of \<^verbatim>\<open>SPEC_ATTRS\<close> is defined and
  \<^verbatim>\<open>SPEC_TYPE\<close> is true. Only such a class is registered.
\<close>

definition registers :: "'a py_class \<Rightarrow> bool" where
  "registers cls = (list_all (hasattr cls) (SPEC_ATTRS cls) \<and> truthy_SPEC_TYPE cls)"

text \<open>Lines 61 and 62: the key under which a class is registered.\<close>

definition registry_key :: "'a py_class \<Rightarrow> 'a registry_key" where
  "registry_key cls =
     (the (SPEC_TYPE cls),
      sorted_items (map (\<lambda>attr. (attr, the (cls_attrs cls attr))) (SPEC_ATTRS cls)))"

text \<open>
  The message of line 65. \<^verbatim>\<open>%s\<close> of a list of strings prints their \<^verbatim>\<open>repr\<close>s
  between brackets; the \<^verbatim>\<open>repr\<close> of an attribute name, which has neither quotes nor
  escapes, is the name between single quotes.
\<close>

definition str_of_names :: "string list \<Rightarrow> string" where
  "str_of_names xs = ''['' @ join '', '' (map (\<lambda>s. [CHR 0x27] @ s @ [CHR 0x27]) xs) @ '']''"

definition unique_values_message :: "'a py_class \<Rightarrow> string" where
  "unique_values_message cls =
     ''Subclasses of '' @ the (SPEC_TYPE cls) @ '' must define unique values for the attrs: ''
       @ str_of_names (SPEC_ATTRS cls) @ ''.''"

text \<open>
  \<^verbatim>\<open>BaseSpecMetaClass.__init__\<close>, lines 60 to 68, on the registry: the outcome of the
  class definition and the registry it leaves behind. When the exception is raised
  the assignment of line 68 has not run.
\<close>

definition BaseSpecMetaClass_init ::
    "'a registry \<Rightarrow> 'a py_class \<Rightarrow> (error + unit) \<times> 'a registry" where
  "BaseSpecMetaClass_init reg cls =
     (if registers cls then
        (let key = registry_key cls
         in if reg key \<noteq> None then (Inl (InvalidValue (unique_values_message cls)), reg)
            else (Inr (), reg(key \<mapsto> cls)))
      else (Inr (), reg))"

section \<open>Decoders and the state of a spec class\<close>

text \<open>
  A \<^verbatim>\<open>ConfigOptionDecoder\<close> as the module uses it: the attributes \<^verbatim>\<open>required\<close> and
  \<^verbatim>\<open>default\<close> and the method \<^verbatim>\<open>Decode(value, component_full_name, flag_values)\<close>, which
  returns the decoded value or raises.
\<close>

record decoder =
  required :: bool
  default :: pyval
  Decode :: "pyval \<Rightarrow> string \<Rightarrow> flag_values option \<Rightarrow> error + pyval"

text \<open>
  An entry of the dict that \<^verbatim>\<open>_GetOptionDecoderConstructions\<close> returns is a pair
  \<^verbatim>\<open>(decoder_class, init_args)\<close>; it stands for the call
  \<^verbatim>\<open>decoder_class(option=option, **init_args)\<close> of line 142, a function of the option name.
  The constructors belong to the module \<^verbatim>\<open>option_decoders\<close>; they are taken to return
  a decoder.
\<close>

type_synonym decoder_construction = "string \<Rightarrow> decoder"

text \<open>
  What a subclass of \<^verbatim>\<open>BaseSpec\<close> overrides: the declared options and the flag hook
  (which may modify the config it is given).
\<close>

record spec_class =
  GetOptionDecoderConstructions :: "(string \<times> decoder_construction) list"
  ApplyFlags :: "config \<Rightarrow> flag_values \<Rightarrow> config"

text \<open>
  The two class variables that \<^verbatim>\<open>BaseSpecMetaClass.__init__\<close> creates (lines 58, 59)
  and \<^verbatim>\<open>_InitDecoders\<close> fills: the \<^verbatim>\<open>OrderedDict\<close> of decoders and the set of required
  options.
\<close>

record cls_state =
  decoders :: "(string \<times> decoder) list"
  required_options :: "string set"

definition new_cls_state :: cls_state where
  "new_cls_state = \<lparr>decoders = [], required_options = {}\<rparr>"

text \<open>The body of the loop of \<^verbatim>\<open>_InitDecoders\<close>, lines 141 to 145.\<close>

definition add_decoder :: "string \<times> decoder_construction \<Rightarrow> cls_state \<Rightarrow> cls_state" where
  "add_decoder item st =
     (let option = fst item;
          decoder = (snd item) option;
          st1 = st\<lparr>decoders := AList.update option decoder (decoders st)\<rparr>
      in if required decoder
         then st1\<lparr>required_options := insert option (required_options st1)\<rparr>
         else st1)"

text \<open>
  \<^verbatim>\<open>_InitDecoders\<close>. The lock serialises the callers; one caller at a time is what
  this function describes.
\<close>

definition InitDecoders :: "spec_class \<Rightarrow> cls_state \<Rightarrow> cls_state" where
  "InitDecoders cls st =
     (if decoders st = []
      then fold add_decoder (sorted_items (GetOptionDecoderConstructions cls)) st
      else st)"

text \<open>\<^verbatim>\<open>_DecodeAndInit\<close>: one attribute per decoder, in the order of the table.\<close>

fun DecodeAndInit ::
    "spec_instance \<Rightarrow> string \<Rightarrow> config \<Rightarrow> (string \<times> decoder) list \<Rightarrow> flag_values option
      \<Rightarrow> error + spec_instance" where
  "DecodeAndInit self component_full_name config [] flag_values = Inr self"
| "DecodeAndInit self component_full_name config ((option, decoder) # ds) flag_values =
     (case (case map_of config option of
              Some v \<Rightarrow> Decode decoder v component_full_name flag_values
            | None \<Rightarrow> Inr (default decoder)) of
        Inl e \<Rightarrow> Inl e
      | Inr val \<Rightarrow>
          DecodeAndInit (AList.update option val self) component_full_name config ds flag_values)"

text \<open>Lines 107 to 110 of \<^verbatim>\<open>BaseSpec.__init__\<close>.\<close>

definition ensure_decoders :: "spec_class \<Rightarrow> cls_state \<Rightarrow> cls_state" where
  "ensure_decoders cls st = (if decoders st = [] then InitDecoders cls st else st)"

definition apply_flags :: "spec_class \<Rightarrow> flag_values option \<Rightarrow> config \<Rightarrow> config" where
  "apply_flags cls flag_values kwargs =
     (if truthy_flags flag_values then ApplyFlags cls kwargs (the flag_values) else kwargs)"

definition missing_message :: "string \<Rightarrow> string list \<Rightarrow> string" where
  "missing_message component_full_name names =
     ''Required options were missing from '' @ component_full_name @ '': ''
       @ join '', '' names @ ''.''"

definition unrecognized_message :: "string \<Rightarrow> string list \<Rightarrow> string" where
  "unrecognized_message component_full_name names =
     ''Unrecognized options were found in '' @ component_full_name @ '': ''
       @ join '', '' names @ ''.''"

text \<open>
  \<^verbatim>\<open>BaseSpec.__init__\<close>: the state of the class afterwards, and the new instance or
  the exception.
\<close>

definition BaseSpec_init ::
    "spec_class \<Rightarrow> cls_state \<Rightarrow> string \<Rightarrow> flag_values option \<Rightarrow> config
      \<Rightarrow> cls_state \<times> (error + spec_instance)" where
  "BaseSpec_init cls st component_full_name flag_values kwargs0 =
     (let st1 = ensure_decoders cls st;
          kwargs = apply_flags cls flag_values kwargs0;
          missing_options = required_options st1 - set (map fst kwargs)
      in if missing_options \<noteq> {} then
           (st1, Inl (MissingOption
              (missing_message component_full_name (sorted_list_of_set missing_options))))
         else
           (let unrecognized_options = set (map fst kwargs) - set (map fst (decoders st1))
            in if unrecognized_options \<noteq> {} then
                 (st1, Inl (UnrecognizedOption
                    (unrecognized_message component_full_name
                       (sorted_list_of_set unrecognized_options))))
               else
                 (st1, DecodeAndInit [] component_full_name kwargs (decoders st1) flag_values)))"

text \<open>
  \<^verbatim>\<open>BaseSpec\<close> itself declares no option and its flag hook does nothing.
\<close>

definition BaseSpec :: spec_class where
  "BaseSpec = \<lparr>GetOptionDecoderConstructions = [], ApplyFlags = (\<lambda>config_values flag_values. config_values)\<rparr>"

section \<open>The per-cloud config spec and its decoder\<close>

text \<open>
  Modelled from the spec: \<^verbatim>\<open>ConfigOptionDecoder._GetOptionFullName\<close> of the module
  \<^verbatim>\<open>option_decoders\<close>, which is not among the sources. The spec gives the derived
  component name as parent name + "." + option name.
\<close>

definition GetOptionFullName :: "string \<Rightarrow> string \<Rightarrow> string" where
  "GetOptionFullName option component_full_name = component_full_name @ ''.'' @ option"

text \<open>
  Modelled from the spec: \<^verbatim>\<open>option_decoders.TypeVerifier\<close> with
  \<^verbatim>\<open>valid_types=(dict,)\<close>, which is not among the sources. The spec says of it that it
  accepts only mapping values (or null), returns what it accepts, and fails with a type
  error (an \<^verbatim>\<open>InvalidValue\<close>, reported with the fully qualified option name) on any
  other value. Constructed with a default, as in line 228, its option is optional.
\<close>

definition TypeVerifier_Decode ::
    "string \<Rightarrow> pyval \<Rightarrow> string \<Rightarrow> flag_values option \<Rightarrow> error + pyval" where
  "TypeVerifier_Decode option val component_full_name flag_values =
     (case val of
        PNone \<Rightarrow> Inr PNone
      | PDict d \<Rightarrow> Inr (PDict d)
      | _ \<Rightarrow> Inl (InvalidValue (GetOptionFullName option component_full_name)))"

definition TypeVerifier :: "pyval \<Rightarrow> string \<Rightarrow> decoder" where
  "TypeVerifier dflt option =
     \<lparr>required = False, default = dflt, Decode = TypeVerifier_Decode option\<rparr>"

text \<open>
  \<^verbatim>\<open>PerCloudConfigSpec\<close>, for the tuple \<^verbatim>\<open>provider_info.VALID_CLOUDS\<close> (a constant of a
  module that is not among the sources, hence a parameter): the dict of
  \<^verbatim>\<open>BaseSpec\<close>, empty, with one entry stored per cloud.
\<close>

definition PerCloudConfigSpec :: "string list \<Rightarrow> spec_class" where
  "PerCloudConfigSpec VALID_CLOUDS =
     \<lparr>GetOptionDecoderConstructions =
        fold (\<lambda>cloud result. AList.update cloud (TypeVerifier PNone) result) VALID_CLOUDS
          (GetOptionDecoderConstructions BaseSpec),
      ApplyFlags = ApplyFlags BaseSpec\<rparr>"

text \<open>
  The call \<^verbatim>\<open>PerCloudConfigSpec(name, flag_values=flag_values, **input_dict)\<close> binds
  \<^verbatim>\<open>self\<close> and \<^verbatim>\<open>component_full_name\<close> by position and \<^verbatim>\<open>flag_values\<close> by keyword:
  a key of \<^verbatim>\<open>input_dict\<close> with one of these names is a second value for the parameter,
  a \<^verbatim>\<open>TypeError\<close>.
\<close>

definition init_parameter_names :: "string list" where
  "init_parameter_names = [''self'', ''component_full_name'', ''flag_values'']"

text \<open>
  \<^verbatim>\<open>PerCloudConfigDecoder.Decode\<close>, for the decoder of the option \<open>option\<close>. It
  constructs a \<^verbatim>\<open>PerCloudConfigSpec\<close>, so it reads and may fill the decoder table of that
  class: the state of the class goes in and comes out.
\<close>

definition PerCloudConfigDecoder_Decode ::
    "string list \<Rightarrow> string \<Rightarrow> cls_state \<Rightarrow> pyval \<Rightarrow> string \<Rightarrow> flag_values option
      \<Rightarrow> cls_state \<times> (error + pyval)" where
  "PerCloudConfigDecoder_Decode VALID_CLOUDS option st val component_full_name flag_values =
     (case TypeVerifier_Decode option val component_full_name flag_values of
        Inl e \<Rightarrow> (st, Inl e)
      | Inr input_dict \<Rightarrow>
          (case input_dict of
             PNone \<Rightarrow> (st, Inr PNone)
           | PDict d \<Rightarrow>
               (if list_ex (\<lambda>k. k \<in> set init_parameter_names) (map fst d)
                then (st, Inl TypeError)
                else (case BaseSpec_init (PerCloudConfigSpec VALID_CLOUDS) st
                             (GetOptionFullName option component_full_name) flag_values d of
                        (st1, Inl e) \<Rightarrow> (st1, Inl e)
                      | (st1, Inr self) \<Rightarrow> (st1, Inr (PSpec self))))
           | _ \<Rightarrow> (st, Inl TypeError)))"

section \<open>Example classes\<close>

text \<open>
  Three subclasses of a spec type \<^verbatim>\<open>BaseVmSpec\<close> that register under the attribute
  \<^verbatim>\<open>CLOUD\<close>, two of them with the same cloud, and the base class, which defines no
  \<^verbatim>\<open>CLOUD\<close>.
\<close>

definition GCP_spec :: "string py_class" where
  "GCP_spec = \<lparr>cls_name = ''GcpVmSpec'', SPEC_TYPE = Some ''BaseVmSpec'',
     SPEC_ATTRS = [''CLOUD''], cls_attrs = [''CLOUD'' \<mapsto> ''GCP'']\<rparr>"

definition GCP_spec_again :: "string py_class" where
  "GCP_spec_again = \<lparr>cls_name = ''OtherGcpVmSpec'', SPEC_TYPE = Some ''BaseVmSpec'',
     SPEC_ATTRS = [''CLOUD''], cls_attrs = [''CLOUD'' \<mapsto> ''GCP'']\<rparr>"

definition AWS_spec :: "string py_class" where
  "AWS_spec = \<lparr>cls_name = ''AwsVmSpec'', SPEC_TYPE = Some ''BaseVmSpec'',
     SPEC_ATTRS = [''CLOUD''], cls_attrs = [''CLOUD'' \<mapsto> ''AWS'']\<rparr>"

definition BaseVmSpec :: "string py_class" where
  "BaseVmSpec = \<lparr>cls_name = ''BaseVmSpec'', SPEC_TYPE = Some ''BaseVmSpec'',
     SPEC_ATTRS = [''CLOUD''], cls_attrs = Map.empty\<rparr>"

text \<open>
  The schema of the spec's end-to-end example: a required option \<^verbatim>\<open>size\<close> decoded as an
  integer and an optional option \<^verbatim>\<open>tier\<close> decoded as a string, with default
  \<^verbatim>\<open>"standard"\<close>.
\<close>

definition int_decoder :: "string \<Rightarrow> decoder" where
  "int_decoder option =
     \<lparr>required = True, default = PNone,
      Decode = (\<lambda>val component_full_name flag_values.
         case val of PInt i \<Rightarrow> Inr (PInt i)
         | _ \<Rightarrow> Inl (InvalidValue (GetOptionFullName option component_full_name)))\<rparr>"

definition string_decoder :: "pyval \<Rightarrow> string \<Rightarrow> decoder" where
  "string_decoder dflt option =
     \<lparr>required = False, default = dflt,
      Decode = (\<lambda>val component_full_name flag_values.
         case val of PStr s \<Rightarrow> Inr (PStr s)
         | _ \<Rightarrow> Inl (InvalidValue (GetOptionFullName option component_full_name)))\<rparr>"

definition example_spec :: spec_class where
  "example_spec =
     \<lparr>GetOptionDecoderConstructions =
        [(''tier'', string_decoder (PStr ''standard'')), (''size'', int_decoder)],
      ApplyFlags = ApplyFlags BaseSpec\<rparr>"

section \<open>Sorting and association lists\<close>

lemma update_fresh: "k \<notin> fst ` set al \<Longrightarrow> AList.update k v al = al @ [(k, v)]"
  by (induction al) auto

lemma map_fst_insort_key: "map fst (insort_key fst x xs) = insort (fst x) (map fst xs)"
  by (induction xs) auto

lemma map_fst_sorted_items: "map fst (sorted_items kvs) = sort (map fst kvs)"
  unfolding sorted_items_def by (induction kvs) (auto simp: map_fst_insort_key)

lemma set_sorted_items: "set (sorted_items kvs) = set kvs"
  by (simp add: sorted_items_def)

lemma decoders_add_decoder:
  "decoders (add_decoder item st) = AList.update (fst item) (snd item (fst item)) (decoders st)"
  by (simp add: add_decoder_def Let_def)

lemma required_add_decoder:
  "required_options (add_decoder item st) =
     (if required (snd item (fst item)) then insert (fst item) (required_options st)
      else required_options st)"
  by (simp add: add_decoder_def Let_def)

lemma decoders_fold_add_decoder:
  assumes "distinct (map fst xs)" and "fst ` set xs \<inter> fst ` set (decoders st) = {}"
  shows "decoders (fold add_decoder xs st) =
           decoders st @ map (\<lambda>item. (fst item, snd item (fst item))) xs"
  using assms
proof (induction xs arbitrary: st)
  case Nil
  then show ?case by simp
next
  case (Cons x xs)
  from Cons.prems have fresh: "fst x \<notin> fst ` set (decoders st)" by auto
  have step: "decoders (add_decoder x st) = decoders st @ [(fst x, snd x (fst x))]"
    by (simp add: decoders_add_decoder update_fresh [OF fresh])
  from Cons.prems have "fst ` set xs \<inter> fst ` set (decoders (add_decoder x st)) = {}"
    by (auto simp: step)
  with Cons.prems have "decoders (fold add_decoder xs (add_decoder x st)) =
      decoders (add_decoder x st) @ map (\<lambda>item. (fst item, snd item (fst item))) xs"
    by (intro Cons.IH) simp_all
  then show ?case by (simp add: step)
qed

lemma required_fold_add_decoder:
  "required_options (fold add_decoder xs st) =
     required_options st \<union> fst ` {item \<in> set xs. required (snd item (fst item))}"
proof (induction xs arbitrary: st)
  case Nil
  then show ?case by simp
next
  case (Cons x xs)
  show ?case by (auto simp: Cons.IH required_add_decoder)
qed

lemma decoders_fold_nonempty:
  "decoders st \<noteq> [] \<Longrightarrow> decoders (fold add_decoder xs st) \<noteq> []"
  by (induction xs arbitrary: st) (simp_all add: decoders_add_decoder)

lemma decoders_fold_empty:
  assumes "decoders (fold add_decoder xs st) = []"
  shows "xs = []"
proof (cases xs)
  case Nil
  then show ?thesis .
next
  case (Cons x ys)
  have "decoders (add_decoder x st) \<noteq> []" by (simp add: decoders_add_decoder)
  then have "decoders (fold add_decoder ys (add_decoder x st)) \<noteq> []"
    by (rule decoders_fold_nonempty)
  with assms Cons show ?thesis by simp
qed

lemma decoders_InitDecoders:
  assumes "distinct (map fst (GetOptionDecoderConstructions cls))"
  shows "decoders (InitDecoders cls new_cls_state) =
           map (\<lambda>item. (fst item, snd item (fst item)))
             (sorted_items (GetOptionDecoderConstructions cls))"
proof -
  have "distinct (map fst (sorted_items (GetOptionDecoderConstructions cls)))"
    using assms by (simp add: map_fst_sorted_items)
  then show ?thesis
    by (simp add: InitDecoders_def new_cls_state_def decoders_fold_add_decoder)
qed

lemma required_InitDecoders:
  "required_options (InitDecoders cls new_cls_state) =
     fst ` {item \<in> set (GetOptionDecoderConstructions cls). required (snd item (fst item))}"
  by (simp add: InitDecoders_def new_cls_state_def required_fold_add_decoder set_sorted_items)

lemma finite_required_InitDecoders:
  "finite (required_options (InitDecoders cls new_cls_state))"
proof -
  have "required_options (InitDecoders cls new_cls_state)
          \<subseteq> fst ` set (GetOptionDecoderConstructions cls)"
    by (auto simp: required_InitDecoders)
  then show ?thesis by (rule finite_subset) simp
qed

lemma InitDecoders_idem:
  "InitDecoders cls (InitDecoders cls new_cls_state) = InitDecoders cls new_cls_state"
proof (cases "decoders (InitDecoders cls new_cls_state) = []")
  case True
  then have "sorted_items (GetOptionDecoderConstructions cls) = []"
    by (auto simp: InitDecoders_def new_cls_state_def dest: decoders_fold_empty)
  then show ?thesis by (simp add: InitDecoders_def new_cls_state_def)
next
  case False
  then show ?thesis by (simp add: InitDecoders_def [of cls "InitDecoders cls new_cls_state"])
qed

lemma ensure_decoders_reachable:
  assumes "st = new_cls_state \<or> st = InitDecoders cls new_cls_state"
  shows "ensure_decoders cls st = InitDecoders cls new_cls_state"
  using assms
proof
  assume "st = new_cls_state"
  then show ?thesis by (simp add: ensure_decoders_def new_cls_state_def)
next
  assume "st = InitDecoders cls new_cls_state"
  then show ?thesis by (simp add: ensure_decoders_def InitDecoders_idem)
qed

lemma DecodeAndInit_ok:
  assumes "distinct (map fst ds)" and "fst ` set ds \<inter> fst ` set self = {}"
    and "\<forall>(option, d) \<in> set ds. \<forall>v. map_of config option = Some v \<longrightarrow>
           (\<exists>w. Decode d v cfn fv = Inr w)"
  shows "DecodeAndInit self cfn config ds fv =
           Inr (self @ map (\<lambda>(option, d). (option,
                  case map_of config option of
                    Some v \<Rightarrow> projr (Decode d v cfn fv)
                  | None \<Rightarrow> default d)) ds)"
  using assms
proof (induction ds arbitrary: self)
  case Nil
  then show ?case by simp
next
  case (Cons p ds)
  obtain option d where p: "p = (option, d)" by (cases p)
  define val where "val = (case map_of config option of
        Some v \<Rightarrow> projr (Decode d v cfn fv) | None \<Rightarrow> default d)"
  have dec: "(case map_of config option of Some v \<Rightarrow> Decode d v cfn fv
        | None \<Rightarrow> Inr (default d)) = Inr val"
    using Cons.prems(3) by (auto simp: p val_def split: option.splits)
  from Cons.prems(2) have fresh: "option \<notin> fst ` set self" by (auto simp: p)
  have upd: "AList.update option val self = self @ [(option, val)]"
    by (rule update_fresh [OF fresh])
  have "DecodeAndInit (self @ [(option, val)]) cfn config ds fv =
      Inr ((self @ [(option, val)]) @ map (\<lambda>(option, d). (option,
                  case map_of config option of
                    Some v \<Rightarrow> projr (Decode d v cfn fv)
                  | None \<Rightarrow> default d)) ds)"
    using Cons.prems by (intro Cons.IH) (auto simp: p)
  moreover have "DecodeAndInit self cfn config (p # ds) fv =
      DecodeAndInit (self @ [(option, val)]) cfn config ds fv"
    by (simp add: p dec upd)
  ultimately show ?case by (simp add: p val_def)
qed

section \<open>Properties of the registry\<close>

lemma registers_examples:
  "registers GCP_spec" "registers GCP_spec_again" "registers AWS_spec" "\<not> registers BaseVmSpec"
  by (simp_all add: registers_def GCP_spec_def GCP_spec_again_def AWS_spec_def BaseVmSpec_def
      hasattr_def truthy_SPEC_TYPE_def)

lemma registry_key_examples:
  "registry_key GCP_spec = (''BaseVmSpec'', [(''CLOUD'', ''GCP'')])"
  "registry_key GCP_spec_again = (''BaseVmSpec'', [(''CLOUD'', ''GCP'')])"
  "registry_key AWS_spec = (''BaseVmSpec'', [(''CLOUD'', ''AWS'')])"
  by (simp_all add: registry_key_def GCP_spec_def GCP_spec_again_def AWS_spec_def
      sorted_items_def)

lemma sorted_items_perm:
  assumes "distinct (map fst kw1)" and "mset kw1 = mset kw2"
  shows "sorted_items kw1 = sorted_items kw2"
  unfolding sorted_items_def
  using assms by (intro sort_key_eq_sort_key) (auto simp: distinct_map)

text \<open>
  Claim C4. A class that registers after another class has taken the same key (the same
  \<^verbatim>\<open>SPEC_TYPE\<close> and the same sorted attribute pairs) is refused with
  \<^verbatim>\<open>errors.Config.InvalidValue\<close>, the exception this code raises for a duplicate variant,
  and the first class keeps the key. A class with another key that is not taken yet is
  registered, and both classes are then found under their keys.
\<close>

theorem duplicate_registration_fails:
  assumes "registers c1" and "registers c2"
    and "BaseSpecMetaClass_init reg c1 = (Inr (), reg1)"
  shows "(registry_key c2 = registry_key c1 \<longrightarrow>
            BaseSpecMetaClass_init reg1 c2 = (Inl (InvalidValue (unique_values_message c2)), reg1)
            \<and> reg1 (registry_key c1) = Some c1)
       \<and> (registry_key c2 \<noteq> registry_key c1 \<and> reg (registry_key c2) = None \<longrightarrow>
            BaseSpecMetaClass_init reg1 c2 = (Inr (), reg1(registry_key c2 \<mapsto> c2))
            \<and> (reg1(registry_key c2 \<mapsto> c2)) (registry_key c1) = Some c1
            \<and> (reg1(registry_key c2 \<mapsto> c2)) (registry_key c2) = Some c2)"
proof -
  from assms(1,3) have reg1: "reg (registry_key c1) = None" "reg1 = reg(registry_key c1 \<mapsto> c1)"
    by (auto simp: BaseSpecMetaClass_init_def Let_def split: if_splits)
  show ?thesis
    using assms(2) reg1 by (auto simp: BaseSpecMetaClass_init_def Let_def)
qed

theorem duplicate_registration_fails_witness:
  "BaseSpecMetaClass_init Map.empty GCP_spec = (Inr (), [registry_key GCP_spec \<mapsto> GCP_spec])
   \<and> fst (BaseSpecMetaClass_init [registry_key GCP_spec \<mapsto> GCP_spec] GCP_spec_again)
       = Inl (InvalidValue
           ''Subclasses of BaseVmSpec must define unique values for the attrs: ['CLOUD'].'')
   \<and> snd (BaseSpecMetaClass_init [registry_key GCP_spec \<mapsto> GCP_spec] GCP_spec_again)
         (registry_key GCP_spec_again) = Some GCP_spec
   \<and> BaseSpecMetaClass_init [registry_key GCP_spec \<mapsto> GCP_spec] AWS_spec
       = (Inr (), [registry_key GCP_spec \<mapsto> GCP_spec, registry_key AWS_spec \<mapsto> AWS_spec])"
proof -
  have a: "BaseSpecMetaClass_init Map.empty GCP_spec
      = (Inr (), [registry_key GCP_spec \<mapsto> GCP_spec])"
    by (simp add: BaseSpecMetaClass_init_def registers_examples)
  have m: "unique_values_message GCP_spec_again
      = ''Subclasses of BaseVmSpec must define unique values for the attrs: ['CLOUD'].''"
    by (simp add: unique_values_message_def str_of_names_def GCP_spec_again_def)
  show ?thesis
    using a duplicate_registration_fails [OF registers_examples(1) registers_examples(2) a]
      duplicate_registration_fails [OF registers_examples(1) registers_examples(3) a]
    by (simp add: registry_key_examples m)
qed

text \<open>
  Claim C5. \<^verbatim>\<open>GetSpecClass\<close> gives the same class for two orders of the same keyword
  arguments (whose names differ from one another, as keyword arguments do): the pairs
  are sorted by name before the key is built, as they are when a class registers, so
  that a registered class is found under its attribute values in any order.
\<close>

theorem GetSpecClass_order_independent:
  assumes "distinct (map fst kw1)" and "mset kw1 = mset kw2"
  shows "GetSpecClass reg base_class kw1 = GetSpecClass reg base_class kw2
       \<and> sorted (map fst (sorted_items kw1))
       \<and> sorted (map fst (snd (registry_key cls)))
       \<and> (registers cls \<and> BaseSpecMetaClass_init reg cls = (Inr (), reg1)
            \<and> cls_name base_class = the (SPEC_TYPE cls)
            \<and> mset kw1 = mset (map (\<lambda>attr. (attr, the (cls_attrs cls attr))) (SPEC_ATTRS cls))
          \<longrightarrow> GetSpecClass reg1 base_class kw2 = cls)"
proof -
  have eq: "sorted_items kw1 = sorted_items kw2"
    using assms by (rule sorted_items_perm)
  have found: "GetSpecClass reg1 base_class kw2 = cls"
    if r: "registers cls" and i: "BaseSpecMetaClass_init reg cls = (Inr (), reg1)"
      and n: "cls_name base_class = the (SPEC_TYPE cls)"
      and m: "mset kw1 = mset (map (\<lambda>attr. (attr, the (cls_attrs cls attr))) (SPEC_ATTRS cls))"
  proof -
    have "sorted_items kw1
        = sorted_items (map (\<lambda>attr. (attr, the (cls_attrs cls attr))) (SPEC_ATTRS cls))"
      using assms(1) m by (rule sorted_items_perm)
    then have k: "(cls_name base_class, sorted_items kw2) = registry_key cls"
      using eq n by (simp add: registry_key_def)
    from r i have "reg1 = reg(registry_key cls \<mapsto> cls)"
      by (auto simp: BaseSpecMetaClass_init_def Let_def split: if_splits)
    then show ?thesis by (simp add: GetSpecClass_def k)
  qed
  show ?thesis
    using eq found by (simp add: GetSpecClass_def registry_key_def sorted_items_def)
qed

theorem GetSpecClass_order_independent_witness:
  "distinct (map fst [(''a'', ''1''), (''b'', ''2'')])
   \<and> mset [(''a'', ''1''), (''b'', ''2'')] = mset [(''b'', ''2''), (''a'', ''1'')]
   \<and> GetSpecClass [registry_key GCP_spec \<mapsto> GCP_spec] BaseVmSpec [(''a'', ''1''), (''b'', ''2'')]
       = GetSpecClass [registry_key GCP_spec \<mapsto> GCP_spec] BaseVmSpec [(''b'', ''2''), (''a'', ''1'')]"
proof -
  have d: "distinct (map fst [(''a'', ''1''), (''b'', ''2'')])" by simp
  have m: "mset [(''a'', ''1''), (''b'', ''2'')] = mset [(''b'', ''2''), (''a'', ''1'')]"
    by simp
  show ?thesis
    using d m GetSpecClass_order_independent [OF d m,
        of "[registry_key GCP_spec \<mapsto> GCP_spec]" BaseVmSpec GCP_spec Map.empty]
    by blast
qed

text \<open>
  Claim C8. When no class is registered under the key built from the name of the base
  class and the sorted keyword arguments, \<^verbatim>\<open>GetSpecClass\<close> returns the base class it
  was given.
\<close>

theorem GetSpecClass_fallback:
  assumes "reg (cls_name base_class, sorted_items kwargs) = None"
  shows "GetSpecClass reg base_class kwargs = base_class"
  using assms by (simp add: GetSpecClass_def)

theorem GetSpecClass_fallback_witness:
  "[registry_key GCP_spec \<mapsto> GCP_spec] (cls_name BaseVmSpec, sorted_items [(''CLOUD'', ''Azure'')])
     = None
   \<and> GetSpecClass [registry_key GCP_spec \<mapsto> GCP_spec] BaseVmSpec [(''CLOUD'', ''Azure'')]
     = BaseVmSpec"
proof -
  have n: "[registry_key GCP_spec \<mapsto> GCP_spec]
      (cls_name BaseVmSpec, sorted_items [(''CLOUD'', ''Azure'')]) = None"
    by (simp add: registry_key_examples BaseVmSpec_def sorted_items_def)
  show ?thesis
    using n GetSpecClass_fallback [of "[registry_key GCP_spec \<mapsto> GCP_spec]" BaseVmSpec
        "[(''CLOUD'', ''Azure'')]"]
    by simp
qed

text \<open>
  Claim C10. When the definition of a class fails in \<^verbatim>\<open>BaseSpecMetaClass.__init__\<close>,
  the registry is what it was: the class that held the key still holds it, and no
  entry was added or replaced.
\<close>

theorem registration_atomic:
  assumes "fst (BaseSpecMetaClass_init reg cls) = Inl e"
  shows "snd (BaseSpecMetaClass_init reg cls) = reg
       \<and> (\<exists>old. reg (registry_key cls) = Some old
             \<and> snd (BaseSpecMetaClass_init reg cls) (registry_key cls) = Some old)"
  using assms by (auto simp: BaseSpecMetaClass_init_def Let_def split: if_splits)

theorem registration_atomic_witness:
  "fst (BaseSpecMetaClass_init [registry_key GCP_spec \<mapsto> GCP_spec] GCP_spec_again)
     = Inl (InvalidValue (unique_values_message GCP_spec_again))
   \<and> snd (BaseSpecMetaClass_init [registry_key GCP_spec \<mapsto> GCP_spec] GCP_spec_again)
     = [registry_key GCP_spec \<mapsto> GCP_spec]"
proof -
  have f: "fst (BaseSpecMetaClass_init [registry_key GCP_spec \<mapsto> GCP_spec] GCP_spec_again)
      = Inl (InvalidValue (unique_values_message GCP_spec_again))"
    by (simp add: BaseSpecMetaClass_init_def registers_examples registry_key_examples)
  show ?thesis using f registration_atomic [OF f] by simp
qed

section \<open>Properties of the construction of a spec\<close>

text \<open>
  The class variables are written by \<^verbatim>\<open>_InitDecoders\<close> only, so the state of a class
  is the one the metaclass created or the one \<^verbatim>\<open>_InitDecoders\<close> built from it. In both
  cases \<^verbatim>\<open>__init__\<close> goes on with the built table.
\<close>

lemma BaseSpec_init_reachable:
  assumes "st = new_cls_state \<or> st = InitDecoders cls new_cls_state"
  shows "BaseSpec_init cls st cfn fv kwargs0 =
     (let st1 = InitDecoders cls new_cls_state;
          kwargs = apply_flags cls fv kwargs0;
          missing_options = required_options st1 - set (map fst kwargs)
      in if missing_options \<noteq> {} then
           (st1, Inl (MissingOption
              (missing_message cfn (sorted_list_of_set missing_options))))
         else
           (let unrecognized_options = set (map fst kwargs) - set (map fst (decoders st1))
            in if unrecognized_options \<noteq> {} then
                 (st1, Inl (UnrecognizedOption
                    (unrecognized_message cfn (sorted_list_of_set unrecognized_options))))
               else
                 (st1, DecodeAndInit [] cfn kwargs (decoders st1) fv)))"
  by (simp add: BaseSpec_init_def ensure_decoders_reachable [OF assms])

lemma example_table:
  "InitDecoders example_spec new_cls_state =
     \<lparr>decoders = [(''size'', int_decoder ''size''),
                  (''tier'', string_decoder (PStr ''standard'') ''tier'')],
      required_options = {''size''}\<rparr>"
  by (simp add: InitDecoders_def new_cls_state_def example_spec_def sorted_items_def
      add_decoder_def Let_def int_decoder_def string_decoder_def)

lemma example_flags: "apply_flags example_spec fv kwargs = kwargs"
  by (simp add: apply_flags_def example_spec_def BaseSpec_def)

text \<open>
  Claim C2. When the config, after the flag hook, lacks a required option,
  \<^verbatim>\<open>BaseSpec.__init__\<close> raises \<^verbatim>\<open>MissingOption\<close> and returns no instance. The message
  names the component and, joined by commas, the required options that are not keys of
  the config: all of them, each once, in sorted order.
\<close>

theorem missing_option_error:
  fixes cls st component_full_name flag_values kwargs
  defines "table \<equiv> InitDecoders cls new_cls_state"
    and "config \<equiv> apply_flags cls flag_values kwargs"
  defines "missing \<equiv> required_options table - set (map fst config)"
  assumes "st = new_cls_state \<or> st = table"
    and "\<not> required_options table \<subseteq> set (map fst config)"
  shows "BaseSpec_init cls st component_full_name flag_values kwargs =
           (table, Inl (MissingOption
              (''Required options were missing from '' @ component_full_name @ '': ''
                 @ join '', '' (sorted_list_of_set missing) @ ''.'')))
       \<and> sorted (sorted_list_of_set missing)
       \<and> distinct (sorted_list_of_set missing)
       \<and> set (sorted_list_of_set missing) = required_options table - set (map fst config)"
proof -
  have fin: "finite missing"
    unfolding missing_def table_def by (simp add: finite_required_InitDecoders)
  have ne: "missing \<noteq> {}"
    using assms(5) unfolding missing_def by auto
  have "BaseSpec_init cls st component_full_name flag_values kwargs =
      (table, Inl (MissingOption (missing_message component_full_name
         (sorted_list_of_set missing))))"
    using assms(4) ne unfolding table_def config_def missing_def
    by (simp add: BaseSpec_init_reachable Let_def)
  then show ?thesis
    using fin by (simp add: missing_message_def missing_def)
qed

theorem missing_option_error_witness:
  "\<not> required_options (InitDecoders example_spec new_cls_state)
       \<subseteq> set (map fst (apply_flags example_spec None []))
   \<and> snd (BaseSpec_init example_spec new_cls_state ''vm'' None [])
       = Inl (MissingOption ''Required options were missing from vm: size.'')"
  using missing_option_error [of new_cls_state example_spec None "[]" "''vm''"]
  by (simp add: example_table example_flags)

text \<open>
  Claim C3. When the config, after the flag hook, has every required option and a key
  that is not in the decoder table, \<^verbatim>\<open>BaseSpec.__init__\<close> raises
  \<^verbatim>\<open>UnrecognizedOption\<close> and returns no instance. The message names the component and,
  joined by commas, the keys of the config that the table does not have: all of them,
  each once, in sorted order.
\<close>

theorem unrecognized_option_error:
  fixes cls st component_full_name flag_values kwargs
  defines "table \<equiv> InitDecoders cls new_cls_state"
    and "config \<equiv> apply_flags cls flag_values kwargs"
  defines "unrecognized \<equiv> set (map fst config) - set (map fst (decoders table))"
  assumes "st = new_cls_state \<or> st = table"
    and "required_options table \<subseteq> set (map fst config)"
    and "\<not> set (map fst config) \<subseteq> set (map fst (decoders table))"
  shows "BaseSpec_init cls st component_full_name flag_values kwargs =
           (table, Inl (UnrecognizedOption
              (''Unrecognized options were found in '' @ component_full_name @ '': ''
                 @ join '', '' (sorted_list_of_set unrecognized) @ ''.'')))
       \<and> sorted (sorted_list_of_set unrecognized)
       \<and> distinct (sorted_list_of_set unrecognized)
       \<and> set (sorted_list_of_set unrecognized)
           = set (map fst config) - set (map fst (decoders table))"
proof -
  have fin: "finite unrecognized"
    unfolding unrecognized_def by simp
  have ne: "unrecognized \<noteq> {}"
    using assms(6) unfolding unrecognized_def by auto
  have none_missing: "required_options table - set (map fst config) = {}"
    using assms(5) by auto
  have "BaseSpec_init cls st component_full_name flag_values kwargs =
      (table, Inl (UnrecognizedOption (unrecognized_message component_full_name
         (sorted_list_of_set unrecognized))))"
    using assms(4) ne none_missing unfolding table_def config_def unrecognized_def
    by (simp add: BaseSpec_init_reachable Let_def)
  then show ?thesis
    using fin by (simp add: unrecognized_message_def unrecognized_def)
qed

theorem unrecognized_option_error_witness:
  "required_options (InitDecoders example_spec new_cls_state)
       \<subseteq> set (map fst (apply_flags example_spec None [(''size'', PInt 10), (''bogus'', PInt 1)]))
   \<and> \<not> set (map fst (apply_flags example_spec None [(''size'', PInt 10), (''bogus'', PInt 1)]))
       \<subseteq> set (map fst (decoders (InitDecoders example_spec new_cls_state)))
   \<and> snd (BaseSpec_init example_spec new_cls_state ''vm'' None
            [(''size'', PInt 10), (''bogus'', PInt 1)])
       = Inl (UnrecognizedOption ''Unrecognized options were found in vm: bogus.'')"
  using unrecognized_option_error [of new_cls_state example_spec None
      "[(''size'', PInt 10), (''bogus'', PInt 1)]" "''vm''"]
  by (simp add: example_table example_flags)

text \<open>
  Claim C9. When the config, after the flag hook, both lacks a required option and has
  a key that is not in the decoder table, the exception is \<^verbatim>\<open>MissingOption\<close> and not
  \<^verbatim>\<open>UnrecognizedOption\<close>: the required options are checked first.
\<close>

theorem missing_checked_before_unrecognized:
  fixes cls st component_full_name flag_values kwargs
  defines "table \<equiv> InitDecoders cls new_cls_state"
    and "config \<equiv> apply_flags cls flag_values kwargs"
  assumes "st = new_cls_state \<or> st = table"
    and "\<not> required_options table \<subseteq> set (map fst config)"
    and "\<not> set (map fst config) \<subseteq> set (map fst (decoders table))"
  shows "(\<exists>msg. snd (BaseSpec_init cls st component_full_name flag_values kwargs)
                  = Inl (MissingOption msg))
       \<and> (\<forall>msg. snd (BaseSpec_init cls st component_full_name flag_values kwargs)
                  \<noteq> Inl (UnrecognizedOption msg))"
proof -
  have "required_options table - set (map fst config) \<noteq> {}"
    using assms(4) by auto
  then show ?thesis
    using assms(3) unfolding table_def config_def
    by (simp add: BaseSpec_init_reachable Let_def)
qed

theorem missing_checked_before_unrecognized_witness:
  "\<not> required_options (InitDecoders example_spec new_cls_state)
       \<subseteq> set (map fst (apply_flags example_spec None [(''bogus'', PInt 1)]))
   \<and> \<not> set (map fst (apply_flags example_spec None [(''bogus'', PInt 1)]))
       \<subseteq> set (map fst (decoders (InitDecoders example_spec new_cls_state)))
   \<and> (\<exists>msg. snd (BaseSpec_init example_spec new_cls_state ''vm'' None [(''bogus'', PInt 1)])
                  = Inl (MissingOption msg))"
  using missing_checked_before_unrecognized [of new_cls_state example_spec None
      "[(''bogus'', PInt 1)]" "''vm''"]
  by (simp add: example_table example_flags)

lemma map_of_decoded:
  "map_of (map (\<lambda>(option, d). (option, g option d)) ds) k = map_option (g k) (map_of ds k)"
  by (induction ds) auto

lemma map_of_constructed:
  "map_of (map (\<lambda>item. (fst item, snd item (fst item))) cs) k
     = map_option (\<lambda>construction. construction k) (map_of cs k)"
  by (induction cs) auto

lemma map_of_sorted_items:
  "distinct (map fst kvs) \<Longrightarrow> map_of (sorted_items kvs) = map_of kvs"
  by (rule map_of_inject_set [THEN iffD2]) (simp_all add: map_fst_sorted_items set_sorted_items)

lemma distinct_decoders_InitDecoders:
  assumes "distinct (map fst (GetOptionDecoderConstructions cls))"
  shows "distinct (map fst (decoders (InitDecoders cls new_cls_state)))"
    and "map fst (decoders (InitDecoders cls new_cls_state))
           = sort (map fst (GetOptionDecoderConstructions cls))"
proof -
  have "map fst (decoders (InitDecoders cls new_cls_state))
      = map fst (sorted_items (GetOptionDecoderConstructions cls))"
    using assms by (simp add: decoders_InitDecoders comp_def)
  then show names: "map fst (decoders (InitDecoders cls new_cls_state))
      = sort (map fst (GetOptionDecoderConstructions cls))"
    by (simp add: map_fst_sorted_items)
  show "distinct (map fst (decoders (InitDecoders cls new_cls_state)))"
    using assms by (simp add: names)
qed

lemma map_of_decoders_InitDecoders:
  assumes "distinct (map fst (GetOptionDecoderConstructions cls))"
  shows "map_of (decoders (InitDecoders cls new_cls_state)) k
           = map_option (\<lambda>construction. construction k)
               (map_of (GetOptionDecoderConstructions cls) k)"
  using assms by (simp add: decoders_InitDecoders map_of_constructed map_of_sorted_items)

text \<open>
  Claim C6. The first build, from the state the metaclass created, fills the table with
  one decoder per declared option, each constructed for its option name, in sorted
  order of the names (the declared names differ from one another, being the keys of a
  dict), and makes the set of required options the options whose decoder is required.
  While the table is not empty, \<^verbatim>\<open>_InitDecoders\<close>, and the test before its call in
  \<^verbatim>\<open>__init__\<close>, leave the table and the set as they are.
\<close>

theorem InitDecoders_builds_once:
  fixes cls
  defines "table \<equiv> InitDecoders cls new_cls_state"
    and "constructions \<equiv> GetOptionDecoderConstructions cls"
  assumes "distinct (map fst constructions)"
  shows "map fst (decoders table) = sort (map fst constructions)
       \<and> (\<forall>(option, construction) \<in> set constructions.
             map_of (decoders table) option = Some (construction option))
       \<and> required_options table
           = {option. \<exists>d. map_of (decoders table) option = Some d \<and> required d}
       \<and> (\<forall>st. decoders st \<noteq> [] \<longrightarrow> InitDecoders cls st = st \<and> ensure_decoders cls st = st)"
proof -
  have d: "distinct (map fst (GetOptionDecoderConstructions cls))"
    using assms(3) by (simp add: constructions_def)
  have names: "map fst (decoders table) = sort (map fst constructions)"
    unfolding table_def constructions_def by (rule distinct_decoders_InitDecoders(2) [OF d])
  have entries: "map_of (decoders table) option = Some (construction option)"
    if "(option, construction) \<in> set constructions" for option construction
    using that d unfolding table_def constructions_def
    by (simp add: map_of_decoders_InitDecoders)
  have req: "required_options table
      = {option. \<exists>d. map_of (decoders table) option = Some d \<and> required d}"
  proof (rule set_eqI)
    fix option
    have "option \<in> required_options table \<longleftrightarrow>
        (\<exists>construction. (option, construction) \<in> set constructions
           \<and> required (construction option))"
      unfolding table_def constructions_def by (force simp: required_InitDecoders)
    also have "\<dots> \<longleftrightarrow> (\<exists>construction. map_of constructions option = Some construction
           \<and> required (construction option))"
      using d by (simp add: constructions_def)
    also have "\<dots> \<longleftrightarrow> (\<exists>dec. map_of (decoders table) option = Some dec \<and> required dec)"
      unfolding table_def constructions_def
      by (auto simp: map_of_decoders_InitDecoders [OF d])
    finally show "option \<in> required_options table \<longleftrightarrow>
        option \<in> {option. \<exists>d. map_of (decoders table) option = Some d \<and> required d}"
      by simp
  qed
  have later: "InitDecoders cls st = st \<and> ensure_decoders cls st = st"
    if "decoders st \<noteq> []" for st
    using that by (simp add: InitDecoders_def ensure_decoders_def)
  show ?thesis
    using names entries req later by blast
qed

lemma example_distinct: "distinct (map fst (GetOptionDecoderConstructions example_spec))"
  by (simp add: example_spec_def)

theorem InitDecoders_builds_once_witness:
  "distinct (map fst (GetOptionDecoderConstructions example_spec))
   \<and> map fst (decoders (InitDecoders example_spec new_cls_state)) = [''size'', ''tier'']
   \<and> required_options (InitDecoders example_spec new_cls_state) = {''size''}
   \<and> InitDecoders example_spec (InitDecoders example_spec new_cls_state)
       = InitDecoders example_spec new_cls_state"
  using InitDecoders_builds_once [of example_spec]
  by (simp add: example_table example_distinct)

lemma BaseSpec_init_ok:
  fixes cls st cfn fv kwargs
  defines "table \<equiv> InitDecoders cls new_cls_state"
    and "config \<equiv> apply_flags cls fv kwargs"
  assumes "distinct (map fst (GetOptionDecoderConstructions cls))"
    and "st = new_cls_state \<or> st = table"
    and "required_options table \<subseteq> set (map fst config)"
    and "set (map fst config) \<subseteq> set (map fst (decoders table))"
    and "\<forall>(option, d) \<in> set (decoders table). \<forall>v. map_of config option = Some v \<longrightarrow>
           (\<exists>w. Decode d v cfn fv = Inr w)"
  shows "BaseSpec_init cls st cfn fv kwargs =
           (table, Inr (map (\<lambda>(option, d). (option,
                  case map_of config option of
                    Some v \<Rightarrow> projr (Decode d v cfn fv)
                  | None \<Rightarrow> default d)) (decoders table)))"
proof -
  have none_missing: "required_options table - set (map fst config) = {}"
    using assms(5) by auto
  have none_unrecognized: "set (map fst config) - set (map fst (decoders table)) = {}"
    using assms(6) by auto
  have "distinct (map fst (decoders table))"
    unfolding table_def by (rule distinct_decoders_InitDecoders(1) [OF assms(3)])
  then have "DecodeAndInit [] cfn config (decoders table) fv =
      Inr ([] @ map (\<lambda>(option, d). (option,
                  case map_of config option of
                    Some v \<Rightarrow> projr (Decode d v cfn fv)
                  | None \<Rightarrow> default d)) (decoders table))"
    using assms(7) by (intro DecodeAndInit_ok) simp_all
  then show ?thesis
    using assms(4) none_missing none_unrecognized unfolding table_def config_def
    by (simp add: BaseSpec_init_reachable Let_def)
qed

text \<open>
  Claim C1, amended. When the config, after the flag hook, has every required option
  and no key outside the decoder table, and every decoder accepts the value supplied
  for its option, \<^verbatim>\<open>BaseSpec.__init__\<close> returns an instance. Its attributes are the
  options of the table, one each, created in the sorted order of the option names; an
  option of the config holds what its decoder returned for the supplied value, the
  component name and the flag values, and any other option holds its decoder's default.
\<close>

theorem construction_succeeds:
  fixes cls st component_full_name flag_values kwargs
  defines "table \<equiv> InitDecoders cls new_cls_state"
    and "config \<equiv> apply_flags cls flag_values kwargs"
  assumes "distinct (map fst (GetOptionDecoderConstructions cls))"
    and "st = new_cls_state \<or> st = table"
    and "required_options table \<subseteq> set (map fst config)"
    and "set (map fst config) \<subseteq> set (map fst (decoders table))"
    and "\<forall>(option, d) \<in> set (decoders table). \<forall>v. map_of config option = Some v \<longrightarrow>
           (\<exists>w. Decode d v component_full_name flag_values = Inr w)"
  shows "\<exists>self. BaseSpec_init cls st component_full_name flag_values kwargs = (table, Inr self)
          \<and> map fst self = map fst (decoders table)
          \<and> map fst self = sort (map fst (GetOptionDecoderConstructions cls))
          \<and> distinct (map fst self)
          \<and> (\<forall>(option, d) \<in> set (decoders table). \<exists>val. map_of self option = Some val \<and>
                (case map_of config option of
                   Some v \<Rightarrow> Decode d v component_full_name flag_values = Inr val
                 | None \<Rightarrow> val = default d))"
proof -
  define self where "self = map (\<lambda>(option, d). (option,
       case map_of config option of
         Some v \<Rightarrow> projr (Decode d v component_full_name flag_values)
       | None \<Rightarrow> default d)) (decoders table)"
  have res: "BaseSpec_init cls st component_full_name flag_values kwargs = (table, Inr self)"
    unfolding self_def table_def config_def
    using assms(3-7) unfolding table_def config_def by (rule BaseSpec_init_ok)
  have names: "map fst self = map fst (decoders table)"
    by (simp add: self_def comp_def case_prod_unfold)
  have sorted_names: "map fst (decoders table) = sort (map fst (GetOptionDecoderConstructions cls))"
    unfolding table_def by (rule distinct_decoders_InitDecoders(2) [OF assms(3)])
  have dist: "distinct (map fst (decoders table))"
    unfolding table_def by (rule distinct_decoders_InitDecoders(1) [OF assms(3)])
  have attr: "\<exists>val. map_of self option = Some val \<and>
                (case map_of config option of
                   Some v \<Rightarrow> Decode d v component_full_name flag_values = Inr val
                 | None \<Rightarrow> val = default d)"
    if "(option, d) \<in> set (decoders table)" for option d
  proof -
    from that dist have "map_of (decoders table) option = Some d" by simp
    then have m: "map_of self option = Some (case map_of config option of
         Some v \<Rightarrow> projr (Decode d v component_full_name flag_values)
       | None \<Rightarrow> default d)"
      by (simp add: self_def map_of_decoded)
    show ?thesis
    proof (cases "map_of config option")
      case None
      then show ?thesis using m by simp
    next
      case (Some v)
      with assms(7) that obtain w where "Decode d v component_full_name flag_values = Inr w"
        by blast
      then show ?thesis using m Some by simp
    qed
  qed
  show ?thesis
    using res names sorted_names dist attr by (intro exI [of _ self]) auto
qed

theorem construction_succeeds_witness:
  "distinct (map fst (GetOptionDecoderConstructions example_spec))
   \<and> required_options (InitDecoders example_spec new_cls_state)
       \<subseteq> set (map fst (apply_flags example_spec None [(''size'', PInt 10)]))
   \<and> set (map fst (apply_flags example_spec None [(''size'', PInt 10)]))
       \<subseteq> set (map fst (decoders (InitDecoders example_spec new_cls_state)))
   \<and> (\<exists>self. snd (BaseSpec_init example_spec new_cls_state ''vm'' None [(''size'', PInt 10)])
         = Inr self \<and> map fst self = [''size'', ''tier'']
         \<and> map_of self ''size'' = Some (PInt 10)
         \<and> map_of self ''tier'' = Some (PStr ''standard''))"
proof -
  have h: "\<forall>(option, d) \<in> set (decoders (InitDecoders example_spec new_cls_state)).
      \<forall>v. map_of (apply_flags example_spec None [(''size'', PInt 10)]) option = Some v \<longrightarrow>
        (\<exists>w. Decode d v ''vm'' None = Inr w)"
    by (simp add: example_table example_flags int_decoder_def string_decoder_def)
  have r: "required_options (InitDecoders example_spec new_cls_state)
       \<subseteq> set (map fst (apply_flags example_spec None [(''size'', PInt 10)]))"
    by (simp add: example_table example_flags)
  have u: "set (map fst (apply_flags example_spec None [(''size'', PInt 10)]))
       \<subseteq> set (map fst (decoders (InitDecoders example_spec new_cls_state)))"
    by (simp add: example_table example_flags)
  from construction_succeeds [OF example_distinct _ r u h, of new_cls_state]
  obtain self where s: "BaseSpec_init example_spec new_cls_state ''vm'' None [(''size'', PInt 10)]
          = (InitDecoders example_spec new_cls_state, Inr self)"
      "map fst self = map fst (decoders (InitDecoders example_spec new_cls_state))"
      "\<forall>(option, d) \<in> set (decoders (InitDecoders example_spec new_cls_state)).
          \<exists>val. map_of self option = Some val \<and>
                (case map_of (apply_flags example_spec None [(''size'', PInt 10)]) option of
                   Some v \<Rightarrow> Decode d v ''vm'' None = Inr val
                 | None \<Rightarrow> val = default d)"
    by auto
  from s(3) have "map_of self ''size'' = Some (PInt 10)"
      "map_of self ''tier'' = Some (PStr ''standard'')"
    by (auto simp: example_table example_flags int_decoder_def string_decoder_def)
  with s(1,2) r u show ?thesis
    by (simp add: example_table example_distinct)
qed

text \<open>
  Without the condition on the decoders the claim fails: the config
  \<^verbatim>\<open>{"size": "big"}\<close> has the required option and no other key, the decoder of
  \<^verbatim>\<open>size\<close> rejects the string, and the exception leaves \<^verbatim>\<open>__init__\<close>.
\<close>

theorem construction_fails_counterexample:
  "required_options (InitDecoders example_spec new_cls_state)
       \<subseteq> set (map fst (apply_flags example_spec None [(''size'', PStr ''big'')]))
   \<and> set (map fst (apply_flags example_spec None [(''size'', PStr ''big'')]))
       \<subseteq> set (map fst (decoders (InitDecoders example_spec new_cls_state)))
   \<and> snd (BaseSpec_init example_spec new_cls_state ''vm'' None [(''size'', PStr ''big'')])
       = Inl (InvalidValue ''vm.size'')"
  by (simp add: BaseSpec_init_reachable example_table example_flags int_decoder_def
      GetOptionFullName_def)

section \<open>Properties of the per-cloud decoder\<close>

lemma set_update_subset: "set (AList.update k v al) \<subseteq> insert (k, v) (set al)"
  by (induction al) auto

lemma fold_update_clouds:
  "distinct (map fst acc) \<Longrightarrow>
     distinct (map fst (fold (\<lambda>cloud result. AList.update cloud c result) clouds acc))"
  "fst ` set (fold (\<lambda>cloud result. AList.update cloud c result) clouds acc)
     = set clouds \<union> fst ` set acc"
  "snd ` set acc \<subseteq> {c} \<Longrightarrow>
     snd ` set (fold (\<lambda>cloud result. AList.update cloud c result) clouds acc) \<subseteq> {c}"
proof (induction clouds arbitrary: acc)
  case Nil
  { case 1 then show ?case by simp }
  { case 2 show ?case by simp }
  { case 3 then show ?case by simp }
next
  case (Cons cloud clouds)
  { case 1 then show ?case by (simp add: Cons.IH(1) distinct_update) }
  { case 2 show ?case by (auto simp: Cons.IH(2) dom_update) }
  { case 3
    have "snd ` set (AList.update cloud c acc) \<subseteq> {c}"
      using 3 set_update_subset [of cloud c acc] by fastforce
    then show ?case by (simp add: Cons.IH(3)) }
qed

lemma PerCloudConfigSpec_constructions:
  "distinct (map fst (GetOptionDecoderConstructions (PerCloudConfigSpec clouds)))"
  "fst ` set (GetOptionDecoderConstructions (PerCloudConfigSpec clouds)) = set clouds"
  "snd ` set (GetOptionDecoderConstructions (PerCloudConfigSpec clouds)) \<subseteq> {TypeVerifier PNone}"
  by (simp_all add: PerCloudConfigSpec_def BaseSpec_def fold_update_clouds)

lemma PerCloudConfigSpec_table:
  fixes clouds
  defines "table \<equiv> InitDecoders (PerCloudConfigSpec clouds) new_cls_state"
  shows "map fst (decoders table) = sorted_list_of_set (set clouds)"
    and "distinct (map fst (decoders table))"
    and "(option, d) \<in> set (decoders table) \<Longrightarrow> d = TypeVerifier PNone option"
    and "required_options table = {}"
proof -
  let ?cs = "GetOptionDecoderConstructions (PerCloudConfigSpec clouds)"
  have names: "map fst (decoders table) = sort (map fst ?cs)"
    unfolding table_def
    by (rule distinct_decoders_InitDecoders(2) [OF PerCloudConfigSpec_constructions(1)])
  have "sorted_list_of_set (set (sort (map fst ?cs))) = sort (map fst ?cs)"
    by (rule sorted_list_of_set.idem_if_sorted_distinct)
      (simp_all add: PerCloudConfigSpec_constructions(1))
  then show "map fst (decoders table) = sorted_list_of_set (set clouds)"
    using PerCloudConfigSpec_constructions(2) [of clouds] by (simp add: names)
  show "distinct (map fst (decoders table))"
    unfolding table_def
    by (rule distinct_decoders_InitDecoders(1) [OF PerCloudConfigSpec_constructions(1)])
  have all: "snd item = TypeVerifier PNone" if "item \<in> set ?cs" for item
    using that PerCloudConfigSpec_constructions(3) [of clouds] by auto
  show "d = TypeVerifier PNone option" if "(option, d) \<in> set (decoders table)"
    using that all unfolding table_def
    by (auto simp: decoders_InitDecoders [OF PerCloudConfigSpec_constructions(1)]
        set_sorted_items)
  show "required_options table = {}"
    unfolding table_def using all
    by (auto simp: required_InitDecoders TypeVerifier_def)
qed

lemma PerCloudConfigSpec_flags: "apply_flags (PerCloudConfigSpec clouds) fv kwargs = kwargs"
  by (simp add: apply_flags_def PerCloudConfigSpec_def BaseSpec_def)

lemma PerCloudConfigSpec_init_ok:
  fixes clouds st cfn fv d
  defines "table \<equiv> InitDecoders (PerCloudConfigSpec clouds) new_cls_state"
  assumes "st = new_cls_state \<or> st = table"
    and "set (map fst d) \<subseteq> set clouds"
    and "\<forall>v \<in> snd ` set d. \<exists>m. v = PDict m"
  shows "\<exists>self. BaseSpec_init (PerCloudConfigSpec clouds) st cfn fv d = (table, Inr self)
          \<and> map fst self = sorted_list_of_set (set clouds)
          \<and> (\<forall>cloud \<in> set clouds. map_of self cloud
                = Some (case map_of d cloud of Some v \<Rightarrow> v | None \<Rightarrow> PNone))"
proof -
  let ?cls = "PerCloudConfigSpec clouds"
  have keys: "set (map fst (decoders table)) = set clouds"
    unfolding table_def by (simp add: PerCloudConfigSpec_table(1))
  have accepts: "Decode dec v cfn fv = Inr v"
    if "(option, dec) \<in> set (decoders table)" and "map_of d option = Some v"
    for option dec v
  proof -
    from that(2) have "v \<in> snd ` set d" by (force dest: map_of_SomeD)
    with assms(4) obtain m where "v = PDict m" by auto
    moreover from that(1) have "dec = TypeVerifier PNone option"
      unfolding table_def by (rule PerCloudConfigSpec_table(3))
    ultimately show ?thesis by (simp add: TypeVerifier_def TypeVerifier_Decode_def)
  qed
  define self where "self = map (\<lambda>(option, dec). (option,
       case map_of d option of Some v \<Rightarrow> projr (Decode dec v cfn fv)
       | None \<Rightarrow> default dec)) (decoders table)"
  have "BaseSpec_init ?cls st cfn fv d =
      (InitDecoders ?cls new_cls_state, Inr (map (\<lambda>(option, dec). (option,
         case map_of (apply_flags ?cls fv d) option of Some v \<Rightarrow> projr (Decode dec v cfn fv)
         | None \<Rightarrow> default dec)) (decoders (InitDecoders ?cls new_cls_state))))"
  proof (rule BaseSpec_init_ok)
    show "distinct (map fst (GetOptionDecoderConstructions ?cls))"
      by (rule PerCloudConfigSpec_constructions(1))
    show "st = new_cls_state \<or> st = InitDecoders ?cls new_cls_state"
      using assms(2) by (simp add: table_def)
    show "required_options (InitDecoders ?cls new_cls_state)
        \<subseteq> set (map fst (apply_flags ?cls fv d))"
      by (simp add: PerCloudConfigSpec_table(4))
    show "set (map fst (apply_flags ?cls fv d))
        \<subseteq> set (map fst (decoders (InitDecoders ?cls new_cls_state)))"
      using assms(3) keys by (simp add: PerCloudConfigSpec_flags table_def)
    show "\<forall>(option, dec) \<in> set (decoders (InitDecoders ?cls new_cls_state)).
        \<forall>v. map_of (apply_flags ?cls fv d) option = Some v \<longrightarrow>
          (\<exists>w. Decode dec v cfn fv = Inr w)"
      using accepts by (auto simp: PerCloudConfigSpec_flags table_def)
  qed
  then have res: "BaseSpec_init ?cls st cfn fv d = (table, Inr self)"
    by (simp add: self_def table_def PerCloudConfigSpec_flags)
  have names: "map fst self = sorted_list_of_set (set clouds)"
    using PerCloudConfigSpec_table(1) [of clouds]
    by (simp add: self_def comp_def case_prod_unfold table_def)
  have attr: "map_of self cloud = Some (case map_of d cloud of Some v \<Rightarrow> v | None \<Rightarrow> PNone)"
    if "cloud \<in> set clouds" for cloud
  proof -
    from that keys obtain dec where dec: "(cloud, dec) \<in> set (decoders table)" by force
    then have m: "map_of (decoders table) cloud = Some dec"
      using PerCloudConfigSpec_table(2) [of clouds] by (simp add: table_def)
    from dec have t: "dec = TypeVerifier PNone cloud"
      unfolding table_def by (rule PerCloudConfigSpec_table(3))
    show ?thesis
    proof (cases "map_of d cloud")
      case None
      then show ?thesis using m t by (simp add: self_def map_of_decoded TypeVerifier_def)
    next
      case (Some v)
      then show ?thesis using m accepts [OF dec Some] by (simp add: self_def map_of_decoded)
    qed
  qed
  show ?thesis using res names attr by blast
qed

text \<open>
  Claim C7, amended. \<^verbatim>\<open>PerCloudConfigDecoder.Decode\<close> returns \<^verbatim>\<open>None\<close> for \<^verbatim>\<open>None\<close> and
  fails with the type verifier's \<^verbatim>\<open>InvalidValue\<close> for a value that is neither \<^verbatim>\<open>None\<close>
  nor a dict. For a dict whose keys are clouds of \<^verbatim>\<open>VALID_CLOUDS\<close> (and not names of
  parameters of \<^verbatim>\<open>__init__\<close>) and whose values are dicts, it returns the
  \<^verbatim>\<open>PerCloudConfigSpec\<close> constructed with the component name followed by a dot and the
  option name: the instance has one attribute per cloud of \<^verbatim>\<open>VALID_CLOUDS\<close>, which
  holds the dict supplied for the cloud, or \<^verbatim>\<open>None\<close> when the cloud is not a key.
\<close>

theorem PerCloudConfigDecoder_Decode_cases:
  fixes VALID_CLOUDS option st component_full_name flag_values
  defines "table \<equiv> InitDecoders (PerCloudConfigSpec VALID_CLOUDS) new_cls_state"
    and "name \<equiv> component_full_name @ ''.'' @ option"
  assumes "st = new_cls_state \<or> st = table"
  shows "PerCloudConfigDecoder_Decode VALID_CLOUDS option st PNone component_full_name flag_values
           = (st, Inr PNone)
       \<and> (val \<noteq> PNone \<and> (\<forall>m. val \<noteq> PDict m) \<longrightarrow>
            PerCloudConfigDecoder_Decode VALID_CLOUDS option st val component_full_name flag_values
              = (st, Inl (InvalidValue name)))
       \<and> (set (map fst d) \<subseteq> set VALID_CLOUDS
            \<and> set (map fst d) \<inter> set init_parameter_names = {}
            \<and> (\<forall>v \<in> snd ` set d. \<exists>m. v = PDict m) \<longrightarrow>
            (\<exists>self.
               PerCloudConfigDecoder_Decode VALID_CLOUDS option st (PDict d)
                   component_full_name flag_values = (table, Inr (PSpec self))
               \<and> BaseSpec_init (PerCloudConfigSpec VALID_CLOUDS) st name flag_values d
                   = (table, Inr self)
               \<and> map fst self = sorted_list_of_set (set VALID_CLOUDS)
               \<and> (\<forall>cloud \<in> set VALID_CLOUDS. map_of self cloud
                     = Some (case map_of d cloud of Some v \<Rightarrow> v | None \<Rightarrow> PNone))))"
proof -
  have null: "PerCloudConfigDecoder_Decode VALID_CLOUDS option st PNone component_full_name
      flag_values = (st, Inr PNone)"
    by (simp add: PerCloudConfigDecoder_Decode_def TypeVerifier_Decode_def)
  have other: "PerCloudConfigDecoder_Decode VALID_CLOUDS option st val component_full_name
      flag_values = (st, Inl (InvalidValue name))"
    if "val \<noteq> PNone" and "\<forall>m. val \<noteq> PDict m"
    using that
    by (cases val) (simp_all add: PerCloudConfigDecoder_Decode_def TypeVerifier_Decode_def
        GetOptionFullName_def name_def)
  have mapping: "\<exists>self.
       PerCloudConfigDecoder_Decode VALID_CLOUDS option st (PDict d)
           component_full_name flag_values = (table, Inr (PSpec self))
       \<and> BaseSpec_init (PerCloudConfigSpec VALID_CLOUDS) st name flag_values d
           = (table, Inr self)
       \<and> map fst self = sorted_list_of_set (set VALID_CLOUDS)
       \<and> (\<forall>cloud \<in> set VALID_CLOUDS. map_of self cloud
             = Some (case map_of d cloud of Some v \<Rightarrow> v | None \<Rightarrow> PNone))"
    if k: "set (map fst d) \<subseteq> set VALID_CLOUDS"
      and p: "set (map fst d) \<inter> set init_parameter_names = {}"
      and v: "\<forall>v \<in> snd ` set d. \<exists>m. v = PDict m"
  proof -
    from PerCloudConfigSpec_init_ok [OF assms(3) [unfolded table_def] k v, of name flag_values]
    obtain self where s:
      "BaseSpec_init (PerCloudConfigSpec VALID_CLOUDS) st name flag_values d = (table, Inr self)"
      "map fst self = sorted_list_of_set (set VALID_CLOUDS)"
      "\<forall>cloud \<in> set VALID_CLOUDS. map_of self cloud
             = Some (case map_of d cloud of Some v \<Rightarrow> v | None \<Rightarrow> PNone)"
      unfolding table_def by blast
    from p have np: "\<not> list_ex (\<lambda>k. k \<in> set init_parameter_names) (map fst d)"
      by (auto simp: list_ex_iff)
    have "PerCloudConfigDecoder_Decode VALID_CLOUDS option st (PDict d)
           component_full_name flag_values = (table, Inr (PSpec self))"
      using np s(1)
      by (simp add: PerCloudConfigDecoder_Decode_def TypeVerifier_Decode_def
          GetOptionFullName_def name_def)
    with s show ?thesis by blast
  qed
  show ?thesis using null other mapping by blast
qed


theorem PerCloudConfigDecoder_Decode_cases_witness:
  "set (map fst [(''GCP'', PDict [(''k'', PStr ''v'')])]) \<subseteq> set [''GCP'', ''AWS'']
   \<and> set (map fst [(''GCP'', PDict [(''k'', PStr ''v'')])]) \<inter> set init_parameter_names = {}
   \<and> PerCloudConfigDecoder_Decode [''GCP'', ''AWS''] ''vm_spec'' new_cls_state PNone
         ''vm_groups.default'' None = (new_cls_state, Inr PNone)
   \<and> PerCloudConfigDecoder_Decode [''GCP'', ''AWS''] ''vm_spec'' new_cls_state (PInt 3)
         ''vm_groups.default'' None
       = (new_cls_state, Inl (InvalidValue ''vm_groups.default.vm_spec''))
   \<and> (\<exists>self. snd (PerCloudConfigDecoder_Decode [''GCP'', ''AWS''] ''vm_spec'' new_cls_state
                     (PDict [(''GCP'', PDict [(''k'', PStr ''v'')])]) ''vm_groups.default'' None)
                = Inr (PSpec self)
         \<and> map fst self = [''AWS'', ''GCP'']
         \<and> map_of self ''GCP'' = Some (PDict [(''k'', PStr ''v'')])
         \<and> map_of self ''AWS'' = Some PNone)"
proof -
  have h: "set (map fst [(''GCP'', PDict [(''k'', PStr ''v'')])]) \<subseteq> set [''GCP'', ''AWS'']
      \<and> set (map fst [(''GCP'', PDict [(''k'', PStr ''v'')])]) \<inter> set init_parameter_names = {}
      \<and> (\<forall>v \<in> snd ` set [(''GCP'', PDict [(''k'', PStr ''v'')])]. \<exists>m. v = PDict m)"
    by (simp add: init_parameter_names_def)
  have n: "PInt 3 \<noteq> PNone \<and> (\<forall>m. PInt 3 \<noteq> PDict m)" by simp
  have s: "sorted_list_of_set (set [''GCP'', ''AWS'']) = [''AWS'', ''GCP'']" by simp
  note t = PerCloudConfigDecoder_Decode_cases [of new_cls_state "[''GCP'', ''AWS'']"
      "''vm_spec''" "''vm_groups.default''" None "PInt 3"
      "[(''GCP'', PDict [(''k'', PStr ''v'')])]"]
  from t h obtain self where self:
    "PerCloudConfigDecoder_Decode [''GCP'', ''AWS''] ''vm_spec'' new_cls_state
        (PDict [(''GCP'', PDict [(''k'', PStr ''v'')])]) ''vm_groups.default'' None
      = (InitDecoders (PerCloudConfigSpec [''GCP'', ''AWS'']) new_cls_state, Inr (PSpec self))"
    "map fst self = sorted_list_of_set (set [''GCP'', ''AWS''])"
    "\<forall>cloud \<in> set [''GCP'', ''AWS'']. map_of self cloud
        = Some (case map_of [(''GCP'', PDict [(''k'', PStr ''v'')])] cloud of
                  Some v \<Rightarrow> v | None \<Rightarrow> PNone)"
    by blast
  from self(3) have "map_of self ''GCP'' = Some (PDict [(''k'', PStr ''v'')])"
      "map_of self ''AWS'' = Some PNone"
    by simp_all
  with self(1,2) s have "\<exists>self. snd (PerCloudConfigDecoder_Decode [''GCP'', ''AWS''] ''vm_spec''
        new_cls_state (PDict [(''GCP'', PDict [(''k'', PStr ''v'')])]) ''vm_groups.default'' None)
                = Inr (PSpec self)
         \<and> map fst self = [''AWS'', ''GCP'']
         \<and> map_of self ''GCP'' = Some (PDict [(''k'', PStr ''v'')])
         \<and> map_of self ''AWS'' = Some PNone"
    by auto
  moreover from t n have "PerCloudConfigDecoder_Decode [''GCP'', ''AWS''] ''vm_spec''
      new_cls_state PNone ''vm_groups.default'' None = (new_cls_state, Inr PNone)"
    "PerCloudConfigDecoder_Decode [''GCP'', ''AWS''] ''vm_spec'' new_cls_state (PInt 3)
         ''vm_groups.default'' None
       = (new_cls_state, Inl (InvalidValue ''vm_groups.default.vm_spec''))"
    by simp_all
  ultimately show ?thesis using h n by blast
qed

text \<open>
  A dict with a key that is not a cloud of \<^verbatim>\<open>VALID_CLOUDS\<close> is a mapping value for
  which no instance is returned: the nested constructor raises
  \<^verbatim>\<open>UnrecognizedOption\<close>.
\<close>

lemma two_clouds_table:
  "InitDecoders (PerCloudConfigSpec [''GCP'', ''AWS'']) new_cls_state =
     \<lparr>decoders = [(''AWS'', TypeVerifier PNone ''AWS''), (''GCP'', TypeVerifier PNone ''GCP'')],
      required_options = {}\<rparr>"
  by (simp add: InitDecoders_def new_cls_state_def PerCloudConfigSpec_def BaseSpec_def
      sorted_items_def add_decoder_def Let_def TypeVerifier_def)

theorem PerCloudConfigDecoder_Decode_counterexample:
  "snd (PerCloudConfigDecoder_Decode [''GCP'', ''AWS''] ''vm_spec'' new_cls_state
          (PDict [(''bogus'', PDict [(''k'', PStr ''v'')])]) ''vm_groups.default'' None)
     = Inl (UnrecognizedOption
         ''Unrecognized options were found in vm_groups.default.vm_spec: bogus.'')"
  by (simp add: PerCloudConfigDecoder_Decode_def TypeVerifier_Decode_def
      init_parameter_names_def BaseSpec_init_reachable two_clouds_table
      PerCloudConfigSpec_flags GetOptionFullName_def unrecognized_message_def)

end
